theory Spec2Isabelle
  imports Main "HOL-Library.Sublist"
begin

section \<open>The voice recorder component\<close>

text \<open>
  The repository holds three variants of one React component, \<open>WebVoiceRecorder\<close>:
  the main one (AAC target, remote library with two formats per entry), a copy
  without format selection, and an Opus variant with local playback only.
  The definitions below follow the main variant; where the Opus variant differs
  and a property depends on it, its function is given beside the main one with
  the suffix \<open>_opus\<close>.
\<close>

subsection \<open>Raw capture container selection\<close>

text \<open>
  \<open>getSupportedMimeType\<close> walks a fixed list and returns at the first entry for
  which \<open>MediaRecorder.isTypeSupported\<close> answers true; after the loop it returns
  the empty string. The platform's answer is the parameter \<open>isTypeSupported\<close>.
\<close>

definition possibleTypes :: "string list" where
  "possibleTypes =
     [''audio/webm;codecs=opus'', ''audio/mp4;codecs=mp4a.40.2'', ''audio/webm'',
      ''audio/mp4'', ''audio/aac'']"

fun firstSupported :: "(string \<Rightarrow> bool) \<Rightarrow> string list \<Rightarrow> string" where
  "firstSupported isTypeSupported [] = ''''"
| "firstSupported isTypeSupported (mimeType # rest) =
     (if isTypeSupported mimeType then mimeType
      else firstSupported isTypeSupported rest)"

definition getSupportedMimeType :: "(string \<Rightarrow> bool) \<Rightarrow> string" where
  "getSupportedMimeType isTypeSupported = firstSupported isTypeSupported possibleTypes"

subsection \<open>Address normalisation\<close>

text \<open>
  \<open>String.prototype.replace\<close> with a string pattern replaces the first occurrence
  only, and returns the string unchanged when the pattern does not occur. Neither
  replacement used here contains a dollar sign, so no replacement pattern is
  expanded. Strings are byte lists; both patterns are ASCII, and an ASCII byte never
  occurs inside a multi-byte UTF-8 sequence, so the first occurrence is the same
  one as in JavaScript's UTF-16 view.
\<close>

fun replace :: "string \<Rightarrow> string \<Rightarrow> string \<Rightarrow> string" where
  "replace pat rep [] = (if pat = [] then rep else [])"
| "replace pat rep (c # cs) =
     (if prefix pat (c # cs) then rep @ drop (length pat) (c # cs)
      else c # replace pat rep cs)"

text \<open>
  The argument is \<open>None\<close> for JavaScript's \<open>null\<close> and \<open>undefined\<close>; \<open>!url\<close> is also
  true of the empty string. \<open>hostname\<close> is \<open>window.location.hostname\<close>.
\<close>

definition normalizeServerUrl :: "string \<Rightarrow> string option \<Rightarrow> string option" where
  "normalizeServerUrl hostname url =
     (case url of
        None \<Rightarrow> None
      | Some u \<Rightarrow>
          if u = [] then None
          else if hostname = ''localhost'' then Some (replace ''10.0.2.2'' ''localhost'' u)
          else if hostname = ''10.0.2.2'' then Some (replace ''localhost'' ''10.0.2.2'' u)
          else Some u)"

text \<open>Where a pattern occurs in a string, for stating what \<open>replace\<close> does.\<close>

definition occurs_at :: "string \<Rightarrow> string \<Rightarrow> nat \<Rightarrow> bool" where
  "occurs_at pat u i = (i \<le> length u \<and> prefix pat (drop i u))"

definition first_occurrence :: "string \<Rightarrow> string \<Rightarrow> nat \<Rightarrow> bool" where
  "first_occurrence pat u i = (occurs_at pat u i \<and> (\<forall>j<i. \<not> occurs_at pat u j))"

definition absent :: "string \<Rightarrow> string \<Rightarrow> bool" where
  "absent pat u = (\<forall>j\<le>length u. \<not> occurs_at pat u j)"

subsection \<open>Component state\<close>

text \<open>
  A \<open>Blob\<close> is its declared type and its bytes; its size is the length of the bytes.
\<close>

type_synonym bytes = "nat list"

record blob =
  blobType :: string
  blobData :: bytes

text \<open>
  The one \<open>audio\<close> element of the page. Besides the attributes the handlers write,
  the element keeps the list \<open>ops\<close> of the operations performed on it, oldest first,
  so that the order in which a handler halts, re-sources and starts the element can
  be stated. \<open>load()\<close> resets the element: paused, position 0.
\<close>

datatype audio_op =
  Pause | SetCurrentTime nat | SetSrc string | SetCrossOrigin string | Load | Play

record audio_element =
  src :: string
  crossOrigin :: string
  paused :: bool
  currentTime :: nat
  ops :: "audio_op list"

definition pause :: "audio_element \<Rightarrow> audio_element" where
  "pause e = e\<lparr>paused := True, ops := ops e @ [Pause]\<rparr>"

definition setCurrentTime :: "nat \<Rightarrow> audio_element \<Rightarrow> audio_element" where
  "setCurrentTime t e = e\<lparr>currentTime := t, ops := ops e @ [SetCurrentTime t]\<rparr>"

definition setSrc :: "string \<Rightarrow> audio_element \<Rightarrow> audio_element" where
  "setSrc u e = e\<lparr>src := u, ops := ops e @ [SetSrc u]\<rparr>"

definition setCrossOrigin :: "string \<Rightarrow> audio_element \<Rightarrow> audio_element" where
  "setCrossOrigin c e = e\<lparr>crossOrigin := c, ops := ops e @ [SetCrossOrigin c]\<rparr>"

definition load :: "audio_element \<Rightarrow> audio_element" where
  "load e = e\<lparr>paused := True, currentTime := 0, ops := ops e @ [Load]\<rparr>"

definition play :: "audio_element \<Rightarrow> audio_element" where
  "play e = e\<lparr>paused := False, ops := ops e @ [Play]\<rparr>"

text \<open>
  An entry of the remote library: its \<open>_id\<close> (here \<open>rid\<close>) and its two optional
  variants, each with an optional address.
\<close>

record variant =
  url :: "string option"
  mimetype :: string

record recording =
  rid :: string
  mp3 :: "variant option"
  mp4 :: "variant option"

record media_stream =
  live :: bool

record media_recorder =
  mimeType :: string
  active :: bool

datatype interval = EverySecond

text \<open>
  \<open>URL.createObjectURL\<close> and \<open>URL.revokeObjectURL\<close> are recorded as events, oldest
  first. The address the platform creates is an input of the handler that asks for it.
\<close>

datatype url_event = Created string | Revoked string

text \<open>
  The component: its \<open>useState\<close> variables, its \<open>useRef\<close> cells, and what the platform
  keeps for it (the object-address events, and \<open>deviceRequests\<close>, the number of
  \<open>getUserMedia\<close> calls that have not settled yet). Which intervals are live is not
  part of the state: a timer cell is \<open>None\<close> for \<open>null\<close> and holds the handle otherwise.

  A handler reads a state variable from the render that created it and writes through
  a setter, which takes effect for the next render; it reads and writes a ref cell and
  the audio element in place. So a handler takes two worlds: \<open>snap\<close>, the render it
  closes over, from which only state variables are read, and \<open>w\<close>, the world it
  updates. A handler that reads no state variable takes \<open>w\<close> only. An event handler
  of the current render runs as \<open>handler w w\<close>; a callback that runs after an
  \<open>await\<close> keeps the \<open>snap\<close> of the render in which it was created.
\<close>

record world =
  isRecording :: bool
  isPlaying :: bool
  recordingTime :: nat
  playbackTime :: nat
  audioBlob :: "blob option"
  audioUrl :: string
  error :: string
  isConverting :: bool
  selectedRecording :: "recording option"
  recordingFormats :: "string \<rightharpoonup> string"
  mediaRecorderRef :: "media_recorder option"
  audioPlayerRef :: "audio_element option"
  streamRef :: "media_stream option"
  chunksRef :: "blob list"
  timerRef :: "interval option"
  playbackTimerRef :: "interval option"
  ffmpegLoaded :: bool
  objectUrls :: "url_event list"
  deviceRequests :: nat

text \<open>What the handlers ask of the browser.\<close>

record platform =
  hostname :: string
  hasGetUserMedia :: bool
  hasMediaRecorder :: bool
  isTypeSupported :: "string \<Rightarrow> bool"
  defaultMimeType :: string

subsection \<open>Playback\<close>

text \<open>
  \<open>stopPlayback\<close> pauses and rewinds the element when the ref holds one, and then
  resets the playing flag, the elapsed time, the selection and the playback timer,
  whatever they were.
\<close>

definition stopPlayback :: "world \<Rightarrow> world" where
  "stopPlayback w =
     w\<lparr>audioPlayerRef := map_option (setCurrentTime 0 \<circ> pause) (audioPlayerRef w),
       isPlaying := False,
       playbackTime := 0,
       selectedRecording := None,
       playbackTimerRef := None\<rparr>"

text \<open>
  \<open>getRecordingUrl\<close>: the format chosen for the entry, \<open>mp3\<close> when none or an empty
  one is stored; any format other than \<open>mp4\<close> reads the \<open>mp3\<close> variant.
\<close>

definition getRecordingUrl :: "platform \<Rightarrow> world \<Rightarrow> recording \<Rightarrow> string option" where
  "getRecordingUrl pf snap r =
     (let selectedFormat =
            (case recordingFormats snap (rid r) of
               None \<Rightarrow> ''mp3''
             | Some f \<Rightarrow> if f = [] then ''mp3'' else f);
          u = (if selectedFormat = ''mp3'' then Option.bind (mp3 r) url
               else if selectedFormat = ''mp4'' then Option.bind (mp4 r) url
               else Option.bind (mp3 r) url)
      in normalizeServerUrl (hostname pf) u)"

definition urlToPlay :: "platform \<Rightarrow> world \<Rightarrow> string option" where
  "urlToPlay pf snap =
     (case selectedRecording snap of
        Some r \<Rightarrow> getRecordingUrl pf snap r
      | None \<Rightarrow> Some (audioUrl snap))"

text \<open>
  \<open>startPlayback\<close> up to the call of \<open>play()\<close>: when the element exists and the
  address is neither null nor empty, it stops the current playback if the render's
  \<open>isPlaying\<close> is set, then sets the source, loads and plays. Otherwise it does
  nothing. The promise of \<open>play()\<close> settles later, in \<open>playResolved\<close> or
  \<open>playRejected\<close>.
\<close>

definition attach :: "string \<Rightarrow> audio_element \<Rightarrow> audio_element" where
  "attach u = play \<circ> load \<circ> setCrossOrigin ''anonymous'' \<circ> setSrc u"

definition startPlayback :: "platform \<Rightarrow> world \<Rightarrow> world \<Rightarrow> world" where
  "startPlayback pf snap w =
     (case urlToPlay pf snap of
        None \<Rightarrow> w
      | Some u \<Rightarrow>
          if audioPlayerRef w \<noteq> None \<and> u \<noteq> [] then
            (let w1 = (if isPlaying snap then stopPlayback w else w)
             in w1\<lparr>audioPlayerRef := map_option (attach u) (audioPlayerRef w1)\<rparr>)
          else w)"

definition playResolved :: "world \<Rightarrow> world" where
  "playResolved w =
     w\<lparr>isPlaying := True, playbackTime := 0, playbackTimerRef := Some EverySecond\<rparr>"

definition playRejected :: "string \<Rightarrow> string \<Rightarrow> world \<Rightarrow> world" where
  "playRejected message u w =
     w\<lparr>error := ''Failed to play audio: '' @ message @ ''. URL: '' @ u, isPlaying := False\<rparr>"

definition handleAudioEnded :: "world \<Rightarrow> world" where
  "handleAudioEnded w =
     w\<lparr>isPlaying := False, playbackTime := 0, playbackTimerRef := None,
       selectedRecording := None\<rparr>"

text \<open>\<open>selectedRecording?._id\<close> of the render.\<close>

definition selectedId :: "world \<Rightarrow> string option" where
  "selectedId snap = map_option rid (selectedRecording snap)"

definition playRecording :: "platform \<Rightarrow> world \<Rightarrow> recording \<Rightarrow> world \<Rightarrow> world" where
  "playRecording pf snap r w =
     (if selectedId snap = Some (rid r) \<and> isPlaying snap then stopPlayback w
      else startPlayback pf snap (w\<lparr>selectedRecording := Some r\<rparr>))"

definition handleFormatChange :: "world \<Rightarrow> string \<Rightarrow> string \<Rightarrow> world \<Rightarrow> world" where
  "handleFormatChange snap recordingId newFormat w =
     (let w1 = w\<lparr>recordingFormats := (recordingFormats w)(recordingId \<mapsto> newFormat)\<rparr>
      in if selectedId snap = Some recordingId \<and> isPlaying snap then stopPlayback w1 else w1)"

text \<open>
  A trace of element operations re-sources the element only while it is halted:
  \<open>p\<close> is whether the element is paused before the trace.
\<close>

fun attach_when_halted :: "bool \<Rightarrow> audio_op list \<Rightarrow> bool" where
  "attach_when_halted p [] = True"
| "attach_when_halted p (Pause # os) = attach_when_halted True os"
| "attach_when_halted p (Load # os) = attach_when_halted True os"
| "attach_when_halted p (Play # os) = attach_when_halted False os"
| "attach_when_halted p (SetSrc u # os) = (p \<and> attach_when_halted p os)"
| "attach_when_halted p (SetCurrentTime t # os) = attach_when_halted p os"
| "attach_when_halted p (SetCrossOrigin c # os) = attach_when_halted p os"

subsection \<open>Recording\<close>

text \<open>
  \<open>startRecording\<close> up to its \<open>await\<close> of \<open>getUserMedia\<close>. It returns early after a
  failed capability check and after finding the converter not loaded; the outcome
  says which path was taken. Past both checks it stops playback, clears the selection
  and the message, and asks for the device. It reads no state variable.
\<close>

datatype start_outcome = NotSupported | ConverterNotLoaded | DeviceRequested

definition checkSupport :: "platform \<Rightarrow> world \<Rightarrow> bool \<times> world" where
  "checkSupport pf w =
     (if \<not> hasGetUserMedia pf then
        (False, w\<lparr>error := ''Your browser does not support audio recording.''\<rparr>)
      else if \<not> hasMediaRecorder pf then
        (False, w\<lparr>error := ''MediaRecorder is not supported in your browser.''\<rparr>)
      else (True, w))"

definition startRecording :: "platform \<Rightarrow> world \<Rightarrow> start_outcome \<times> world" where
  "startRecording pf w =
     (case checkSupport pf w of
        (False, w1) \<Rightarrow> (NotSupported, w1)
      | (True, w1) \<Rightarrow>
          if \<not> ffmpegLoaded w1 then
            (ConverterNotLoaded,
             w1\<lparr>error := ''Audio converter is not loaded yet. Please wait.''\<rparr>)
          else
            (DeviceRequested,
             (stopPlayback w1)\<lparr>selectedRecording := None, error := [],
                                deviceRequests := Suc (deviceRequests w1)\<rparr>))"

text \<open>
  The rest of \<open>startRecording\<close>, after the device was granted, and its \<open>catch\<close>
  block, after it was denied.
\<close>

definition deviceGranted :: "platform \<Rightarrow> world \<Rightarrow> world" where
  "deviceGranted pf w =
     (let m = getSupportedMimeType (isTypeSupported pf)
      in w\<lparr>streamRef := Some \<lparr>live = True\<rparr>,
           chunksRef := [],
           mediaRecorderRef :=
             Some \<lparr>mimeType = (if m \<noteq> [] then m else defaultMimeType pf), active = True\<rparr>,
           isRecording := True,
           recordingTime := 0,
           timerRef := Some EverySecond,
           deviceRequests := deviceRequests w - 1\<rparr>)"

definition deviceDenied :: "string \<Rightarrow> world \<Rightarrow> world" where
  "deviceDenied message w =
     w\<lparr>error := ''Failed to start recording: '' @ message,
       deviceRequests := deviceRequests w - 1\<rparr>"

definition ondataavailable :: "blob \<Rightarrow> world \<Rightarrow> world" where
  "ondataavailable chunk w =
     (if length (blobData chunk) > 0 then w\<lparr>chunksRef := chunksRef w @ [chunk]\<rparr> else w)"

definition stopRecording :: "world \<Rightarrow> world \<Rightarrow> world" where
  "stopRecording snap w =
     (if mediaRecorderRef w \<noteq> None \<and> isRecording snap then
        w\<lparr>mediaRecorderRef := map_option (\<lambda>r. r\<lparr>active := False\<rparr>) (mediaRecorderRef w),
          isRecording := False,
          timerRef := None\<rparr>
      else w)"

text \<open>
  The record button: disabled while a message is shown, while converting and while
  the converter is not loaded; otherwise it stops the recording when the render's
  \<open>isRecording\<close> is set and starts one when it is not.
\<close>

definition recordButton :: "platform \<Rightarrow> world \<Rightarrow> world \<Rightarrow> start_outcome option \<times> world" where
  "recordButton pf snap w =
     (if error snap \<noteq> [] \<or> isConverting snap \<or> \<not> ffmpegLoaded snap then (None, w)
      else if isRecording snap then (None, stopRecording snap w)
      else (case startRecording pf w of (out, w') \<Rightarrow> (Some out, w')))"

subsection \<open>Conversion\<close>

text \<open>
  The converter is awaited three times: \<open>writeFile\<close>, \<open>exec\<close>, \<open>readFile\<close>. Each
  either throws or returns; \<open>exec\<close> returns an exit code, which the handler does not
  read. The first throw ends the \<open>try\<close> block.
\<close>

datatype 'a attempt = Throws string | Returns 'a

record ffmpeg =
  writeFile :: "string \<Rightarrow> bytes \<Rightarrow> unit attempt"
  exec :: "string list \<Rightarrow> nat attempt"
  readFile :: "string \<Rightarrow> bytes attempt"

definition aacArgs :: "string list" where
  "aacArgs = [''-i'', ''input.file'', ''-c:a'', ''aac'', ''-b:a'', ''128k'',
              ''-movflags'', ''+faststart'', ''output.m4a'']"

definition opusArgs :: "string list" where
  "opusArgs = [''-i'', ''input.file'', ''-c:a'', ''libopus'', ''-b:a'', ''64k'', ''output.opus'']"

definition transcode :: "ffmpeg \<Rightarrow> string list \<Rightarrow> string \<Rightarrow> blob \<Rightarrow> bytes attempt" where
  "transcode eng args out initialBlob =
     (case writeFile eng ''input.file'' (blobData initialBlob) of
        Throws m \<Rightarrow> Throws m
      | Returns _ \<Rightarrow>
          (case exec eng args of
             Throws m \<Rightarrow> Throws m
           | Returns _ \<Rightarrow> readFile eng out))"

definition stopTracks :: "world \<Rightarrow> world" where
  "stopTracks w = w\<lparr>streamRef := map_option (\<lambda>s. s\<lparr>live := False\<rparr>) (streamRef w)\<rparr>"

definition revokeObjectURL :: "string \<Rightarrow> world \<Rightarrow> world" where
  "revokeObjectURL u w = w\<lparr>objectUrls := objectUrls w @ [Revoked u]\<rparr>"

definition createObjectURL :: "string \<Rightarrow> world \<Rightarrow> world" where
  "createObjectURL u w = w\<lparr>objectUrls := objectUrls w @ [Created u]\<rparr>"

text \<open>
  The recorder's \<open>onstop\<close> handler, from the stop event to the end of its \<open>finally\<close>
  block. It is created inside \<open>startRecording\<close>, so \<open>snap\<close> is the render in which
  the recording was started: the \<open>audioUrl\<close> that the \<open>catch\<close> block revokes is that
  render's. \<open>newUrl\<close> is the address that \<open>createObjectURL\<close> returns. The
  \<open>onRecordingComplete\<close> callback of the parent is taken to return normally; it does
  not touch the component. When the ref holds no recorder the handler fails at its
  first statement and changes nothing.
\<close>

definition onstop :: "world \<Rightarrow> ffmpeg \<Rightarrow> string \<Rightarrow> world \<Rightarrow> world" where
  "onstop snap eng newUrl w =
     (case mediaRecorderRef w of
        None \<Rightarrow> w
      | Some r \<Rightarrow>
          (let initialBlob = \<lparr>blobType = mimeType r,
                              blobData = concat (map blobData (chunksRef w))\<rparr>;
               w1 = (stopTracks (w\<lparr>audioBlob := Some initialBlob\<rparr>))
                      \<lparr>isConverting := True, error := ''Converting audio to MP4 (AAC)...''\<rparr>
           in case transcode eng aacArgs ''output.m4a'' initialBlob of
                Returns d \<Rightarrow>
                  (createObjectURL newUrl
                     (w1\<lparr>audioBlob := Some \<lparr>blobType = ''audio/mp4'', blobData = d\<rparr>\<rparr>))
                    \<lparr>audioUrl := newUrl, error := [], isConverting := False\<rparr>
              | Throws m \<Rightarrow>
                  (let w2 = w1\<lparr>error := ''Failed to convert audio: '' @ m\<rparr>;
                       w3 = (if audioUrl snap \<noteq> [] then revokeObjectURL (audioUrl snap) w2
                             else w2)
                   in w3\<lparr>audioUrl := [], audioBlob := None, isConverting := False\<rparr>)))"

text \<open>
  The same handler in the Opus variant: another command and output type, and a
  \<open>catch\<close> block that sets the message and nothing else.
\<close>

definition onstop_opus :: "world \<Rightarrow> ffmpeg \<Rightarrow> string \<Rightarrow> world \<Rightarrow> world" where
  "onstop_opus snap eng newUrl w =
     (case mediaRecorderRef w of
        None \<Rightarrow> w
      | Some r \<Rightarrow>
          (let initialBlob = \<lparr>blobType = mimeType r,
                              blobData = concat (map blobData (chunksRef w))\<rparr>;
               w1 = (stopTracks (w\<lparr>audioBlob := Some initialBlob\<rparr>))
                      \<lparr>isConverting := True, error := ''Converting audio to OPUS...''\<rparr>
           in case transcode eng opusArgs ''output.opus'' initialBlob of
                Returns d \<Rightarrow>
                  (createObjectURL newUrl
                     (w1\<lparr>audioBlob := Some \<lparr>blobType = ''audio/opus'', blobData = d\<rparr>\<rparr>))
                    \<lparr>audioUrl := newUrl, error := [], isConverting := False\<rparr>
              | Throws m \<Rightarrow>
                  w1\<lparr>error := ''Failed to convert audio to OPUS: '' @ m,
                      isConverting := False\<rparr>))"

text \<open>
  The effect declared with the dependency \<open>[audioUrl]\<close>. When a render commits an
  \<open>audioUrl\<close> that differs from the previous render's, React runs the previous
  render's cleanup: it stops the stream's tracks and revokes that render's
  \<open>audioUrl\<close> when it is not empty. The effect body that follows (\<open>loadFFmpeg\<close>, which
  returns at once when the converter is loaded, and \<open>fetchRecordings\<close>) writes
  nothing that is kept here. The Opus variant declares the effect twice, with the
  same cleanup; only the main variant's single effect is followed below.
\<close>

definition cleanup :: "world \<Rightarrow> world \<Rightarrow> world" where
  "cleanup snap w =
     (let w1 = stopTracks w
      in if audioUrl snap \<noteq> [] then revokeObjectURL (audioUrl snap) w1 else w1)"

definition rerender :: "world \<Rightarrow> world \<Rightarrow> world" where
  "rerender snap w = (if audioUrl w \<noteq> audioUrl snap then cleanup snap w else w)"

text \<open>\<open>handleSubmit\<close> after the upload answered with success.\<close>

definition uploadSucceeded :: "world \<Rightarrow> world \<Rightarrow> world" where
  "uploadSucceeded snap w =
     (let w1 = w\<lparr>error := [], audioBlob := None\<rparr>
      in if audioUrl snap \<noteq> [] then (revokeObjectURL (audioUrl snap) w1)\<lparr>audioUrl := []\<rparr>
         else w1)"

text \<open>
  The component has no variable for the pipeline state; it is read off the flags.
  A device request is pending between the call of \<open>getUserMedia\<close> and its answer;
  a local artifact is on offer when both the address and the blob are set.
\<close>

datatype pipeline_state = Idle | AcquiringDevice | Recording | Converting | Ready

definition pipelineState :: "world \<Rightarrow> pipeline_state" where
  "pipelineState w =
     (if isRecording w then Recording
      else if isConverting w then Converting
      else if deviceRequests w > 0 then AcquiringDevice
      else if audioUrl w \<noteq> [] \<and> audioBlob w \<noteq> None then Ready
      else Idle)"

text \<open>
  In a list of events, \<open>a\<close> comes before the first \<open>b\<close>.
\<close>

definition precedes :: "'a \<Rightarrow> 'a \<Rightarrow> 'a list \<Rightarrow> bool" where
  "precedes a b xs = (a \<in> set (takeWhile (\<lambda>x. x \<noteq> b) xs))"

text \<open>
  The local address on offer, when there is one, was created and has not been
  revoked; and an address that the platform has neither created nor revoked so far.
\<close>

definition address_live :: "world \<Rightarrow> bool" where
  "address_live w =
     (audioUrl w = []
      \<or> (Created (audioUrl w) \<in> set (objectUrls w) \<and> Revoked (audioUrl w) \<notin> set (objectUrls w)))"

definition fresh :: "string \<Rightarrow> world \<Rightarrow> bool" where
  "fresh u w = (u \<noteq> [] \<and> Created u \<notin> set (objectUrls w) \<and> Revoked u \<notin> set (objectUrls w))"

subsection \<open>Example worlds\<close>

text \<open>The component as mounted, before the converter has loaded, and after.\<close>

definition initial :: world where
  "initial =
     \<lparr>isRecording = False, isPlaying = False, recordingTime = 0, playbackTime = 0,
      audioBlob = None, audioUrl = [], error = [], isConverting = False,
      selectedRecording = None, recordingFormats = Map.empty,
      mediaRecorderRef = None,
      audioPlayerRef = Some \<lparr>src = [], crossOrigin = ''anonymous'', paused = True,
                              currentTime = 0, ops = []\<rparr>,
      streamRef = None, chunksRef = [], timerRef = None, playbackTimerRef = None,
      ffmpegLoaded = False, objectUrls = [], deviceRequests = 0\<rparr>"

definition loaded :: world where
  "loaded = initial\<lparr>ffmpegLoaded := True\<rparr>"

definition pf0 :: platform where
  "pf0 = \<lparr>hostname = ''localhost'', hasGetUserMedia = True, hasMediaRecorder = True,
          isTypeSupported = (\<lambda>m. m = ''audio/webm''), defaultMimeType = ''audio/ogg''\<rparr>"

definition pfNoRecorder :: platform where
  "pfNoRecorder = pf0\<lparr>hasMediaRecorder := False\<rparr>"

definition recA :: recording where
  "recA = \<lparr>rid = ''a1'',
           mp3 = Some \<lparr>url = Some ''http://10.0.2.2:5000/a1.mp3'', mimetype = ''audio/mpeg''\<rparr>,
           mp4 = None\<rparr>"

text \<open>The library entry \<open>recA\<close> has been playing for three seconds.\<close>

definition playingA :: world where
  "playingA =
     loaded\<lparr>isPlaying := True, playbackTime := 3, selectedRecording := Some recA,
            playbackTimerRef := Some EverySecond,
            audioPlayerRef := Some \<lparr>src = ''http://localhost:5000/a1.mp3'',
                                    crossOrigin = ''anonymous'', paused = False,
                                    currentTime = 3, ops = []\<rparr>\<rparr>"

text \<open>
  A second library entry. While \<open>recA\<close> plays, the play button of \<open>recB\<close> is
  pressed, and then the promise of \<open>play()\<close> resolves. And \<open>recA\<close> playing while a
  local recording is on offer, which shows the local play button.
\<close>

definition recB :: recording where
  "recB = \<lparr>rid = ''b2'',
           mp3 = Some \<lparr>url = Some ''http://10.0.2.2:5000/b2.mp3'', mimetype = ''audio/mpeg''\<rparr>,
           mp4 = None\<rparr>"

definition pressedB :: world where
  "pressedB = playRecording pf0 playingA recB playingA"

definition afterB :: world where
  "afterB = playResolved pressedB"

definition playingAWithLocal :: world where
  "playingAWithLocal = playingA\<lparr>audioUrl := ''blob:1''\<rparr>"

text \<open>
  The play button of \<open>recA\<close> is pressed while nothing plays and there is no local
  recording; it is pressed again, and the promise of \<open>play()\<close> is rejected.
\<close>

definition selectedA :: world where
  "selectedA = playRecording pf0 loaded recA loaded"

definition rejectedA :: world where
  "rejectedA = playRejected ''NotSupportedError'' ''http://localhost:5000/a1.mp3''
                 (playRecording pf0 selectedA recA selectedA)"

text \<open>
  The record button was pressed once and the device prompt is open; then the device
  was granted.
\<close>

definition acquiring :: world where
  "acquiring = snd (startRecording pf0 loaded)"

definition recordingNow :: world where
  "recordingNow = deviceGranted pf0 acquiring"

text \<open>
  A capture of three chunks, one per second; a converter that succeeds and one whose
  \<open>exec\<close> throws.
\<close>

definition chunk :: "nat \<Rightarrow> blob" where
  "chunk n = \<lparr>blobType = ''audio/webm'', blobData = [n]\<rparr>"

definition captured3 :: world where
  "captured3 = ondataavailable (chunk 3) (ondataavailable (chunk 2)
                 (ondataavailable (chunk 1) recordingNow))"

definition engOk :: ffmpeg where
  "engOk = \<lparr>writeFile = (\<lambda>name data. Returns ()), exec = (\<lambda>args. Returns 0),
            readFile = (\<lambda>name. Returns [7, 7])\<rparr>"

definition engExecFails :: ffmpeg where
  "engExecFails = \<lparr>writeFile = (\<lambda>name data. Returns ()),
                   exec = (\<lambda>args. Throws ''Aborted()''),
                   readFile = (\<lambda>name. Throws ''ErrnoError'')\<rparr>"

text \<open>
  The first recording has been converted and is on offer at \<open>blob:1\<close>; then a second
  recording was started from that render, captured one chunk and was stopped.
\<close>

definition ready1 :: world where
  "ready1 = rerender captured3
              (onstop loaded engOk ''blob:1''
                 (ondataavailable (chunk 4) (stopRecording captured3 captured3)))"

definition secondStopped :: world where
  "secondStopped =
     (let s = ondataavailable (chunk 5) (deviceGranted pf0 (snd (startRecording pf0 ready1)))
      in stopRecording s s)"

text \<open>
  The Opus variant in the corresponding state: a first converted recording on offer at
  \<open>blob:1\<close>, a second capture of two chunks just stopped.
\<close>

definition opusStopped :: world where
  "opusStopped =
     loaded\<lparr>audioBlob := Some \<lparr>blobType = ''audio/opus'', blobData = [7, 7]\<rparr>,
            audioUrl := ''blob:1'',
            objectUrls := [Created ''blob:1''],
            mediaRecorderRef := Some \<lparr>mimeType = ''audio/webm'', active = False\<rparr>,
            streamRef := Some \<lparr>live = True\<rparr>,
            chunksRef := [chunk 5, chunk 6]\<rparr>"

section \<open>Properties\<close>

subsection \<open>Container selection\<close>

lemma firstSupported_split:
  "(\<exists>pre m post. ts = pre @ m # post \<and> (\<forall>x\<in>set pre. \<not> supported x) \<and> supported m
       \<and> firstSupported supported ts = m)
   \<or> ((\<forall>x\<in>set ts. \<not> supported x) \<and> firstSupported supported ts = '''')"
proof (induction ts)
  case Nil
  then show ?case by simp
next
  case (Cons t ts)
  show ?case
  proof (cases "supported t")
    case True
    then have "t # ts = [] @ t # ts \<and> (\<forall>x\<in>set []. \<not> supported x) \<and> supported t
        \<and> firstSupported supported (t # ts) = t"
      by simp
    then show ?thesis by blast
  next
    case False
    from Cons.IH show ?thesis
    proof
      assume "\<exists>pre m post. ts = pre @ m # post \<and> (\<forall>x\<in>set pre. \<not> supported x)
          \<and> supported m \<and> firstSupported supported ts = m"
      then obtain pre m post where h: "ts = pre @ m # post" "\<forall>x\<in>set pre. \<not> supported x"
          "supported m" "firstSupported supported ts = m"
        by blast
      with False have "t # ts = (t # pre) @ m # post \<and> (\<forall>x\<in>set (t # pre). \<not> supported x)
          \<and> supported m \<and> firstSupported supported (t # ts) = m"
        by simp
      then show ?thesis by blast
    next
      assume "(\<forall>x\<in>set ts. \<not> supported x) \<and> firstSupported supported ts = ''''"
      with False show ?thesis by simp
    qed
  qed
qed

text \<open>
  C7. The selection returns the first entry of the preference list that the platform
  supports: the list splits into unsupported entries, the returned entry, and a rest.
  When the platform supports no entry, the selection returns the empty string, which
  makes the recorder fall back to the platform default.
\<close>

theorem getSupportedMimeType_first_supported:
  "(\<exists>pre m post. possibleTypes = pre @ m # post
        \<and> (\<forall>x\<in>set pre. \<not> supported x) \<and> supported m
        \<and> getSupportedMimeType supported = m)
   \<or> ((\<forall>x\<in>set possibleTypes. \<not> supported x)
        \<and> getSupportedMimeType supported = '''')"
  unfolding getSupportedMimeType_def by (rule firstSupported_split)

theorem getSupportedMimeType_first_supported_witness:
  "getSupportedMimeType (\<lambda>m. m = ''audio/webm'' \<or> m = ''audio/aac'') = ''audio/webm''
   \<and> getSupportedMimeType (\<lambda>m. False) = ''''"
  using getSupportedMimeType_first_supported [of "\<lambda>m. m = ''audio/webm'' \<or> m = ''audio/aac''"]
    getSupportedMimeType_first_supported [of "\<lambda>m. False"]
  by (simp add: getSupportedMimeType_def possibleTypes_def)

subsection \<open>Address normalisation\<close>

lemma replace_first:
  "pat \<noteq> [] \<Longrightarrow> first_occurrence pat u i \<Longrightarrow>
     replace pat rep u = take i u @ rep @ drop (i + length pat) u"
proof (induction u arbitrary: i)
  case Nil
  then show ?case by (simp add: first_occurrence_def occurs_at_def)
next
  case (Cons c cs)
  show ?case
  proof (cases "prefix pat (c # cs)")
    case True
    then have "occurs_at pat (c # cs) 0" by (simp add: occurs_at_def)
    with Cons.prems have "i = 0" by (auto simp: first_occurrence_def)
    with True show ?thesis by simp
  next
    case False
    with Cons.prems obtain k where k: "i = Suc k"
      by (cases i) (auto simp: first_occurrence_def occurs_at_def)
    have "first_occurrence pat cs k"
      using Cons.prems(2) unfolding k first_occurrence_def occurs_at_def
      by (metis Suc_le_mono Suc_less_eq drop_Suc_Cons length_Cons)
    from Cons.IH[OF Cons.prems(1) this] False show ?thesis by (simp add: k)
  qed
qed

lemma replace_absent:
  "pat \<noteq> [] \<Longrightarrow> absent pat u \<Longrightarrow> replace pat rep u = u"
proof (induction u)
  case Nil
  then show ?case by simp
next
  case (Cons c cs)
  from Cons.prems(2) have "\<not> occurs_at pat (c # cs) 0" unfolding absent_def by blast
  then have np: "\<not> prefix pat (c # cs)" by (simp add: occurs_at_def)
  have "absent pat cs"
    unfolding absent_def
  proof (intro allI impI)
    fix j assume "j \<le> length cs"
    then have "\<not> occurs_at pat (c # cs) (Suc j)"
      using Cons.prems(2) unfolding absent_def by simp
    then show "\<not> occurs_at pat cs j" by (simp add: occurs_at_def)
  qed
  from Cons.IH[OF Cons.prems(1) this] np show ?case by simp
qed

text \<open>
  C10. The normalisation returns null for a null and for an empty address. For a
  non-empty address \<open>u\<close>: under hostname \<open>localhost\<close> the first occurrence of
  \<open>10.0.2.2\<close> (at index \<open>i\<close>) is replaced by \<open>localhost\<close>; under hostname \<open>10.0.2.2\<close>
  the first occurrence of \<open>localhost\<close> is replaced by \<open>10.0.2.2\<close>; an address in
  which the pattern does not occur, and any address under another hostname, is
  returned unchanged.
\<close>

theorem normalizeServerUrl_spec:
  "normalizeServerUrl h None = None
   \<and> normalizeServerUrl h (Some '''') = None
   \<and> (u \<noteq> [] \<longrightarrow> first_occurrence ''10.0.2.2'' u i \<longrightarrow>
        normalizeServerUrl ''localhost'' (Some u)
          = Some (take i u @ ''localhost'' @ drop (i + length ''10.0.2.2'') u))
   \<and> (u \<noteq> [] \<longrightarrow> absent ''10.0.2.2'' u \<longrightarrow>
        normalizeServerUrl ''localhost'' (Some u) = Some u)
   \<and> (u \<noteq> [] \<longrightarrow> first_occurrence ''localhost'' u i \<longrightarrow>
        normalizeServerUrl ''10.0.2.2'' (Some u)
          = Some (take i u @ ''10.0.2.2'' @ drop (i + length ''localhost'') u))
   \<and> (u \<noteq> [] \<longrightarrow> absent ''localhost'' u \<longrightarrow>
        normalizeServerUrl ''10.0.2.2'' (Some u) = Some u)
   \<and> (u \<noteq> [] \<longrightarrow> h \<noteq> ''localhost'' \<longrightarrow> h \<noteq> ''10.0.2.2'' \<longrightarrow>
        normalizeServerUrl h (Some u) = Some u)"
proof -
  have a: "u \<noteq> [] \<Longrightarrow> first_occurrence ''10.0.2.2'' u i \<Longrightarrow>
      normalizeServerUrl ''localhost'' (Some u)
        = Some (take i u @ ''localhost'' @ drop (i + length ''10.0.2.2'') u)"
    using replace_first [of "''10.0.2.2''" u i "''localhost''"]
    by (simp add: normalizeServerUrl_def)
  have b: "u \<noteq> [] \<Longrightarrow> absent ''10.0.2.2'' u \<Longrightarrow>
      normalizeServerUrl ''localhost'' (Some u) = Some u"
    using replace_absent [of "''10.0.2.2''" u "''localhost''"]
    by (simp add: normalizeServerUrl_def)
  have c: "u \<noteq> [] \<Longrightarrow> first_occurrence ''localhost'' u i \<Longrightarrow>
      normalizeServerUrl ''10.0.2.2'' (Some u)
        = Some (take i u @ ''10.0.2.2'' @ drop (i + length ''localhost'') u)"
    using replace_first [of "''localhost''" u i "''10.0.2.2''"]
    by (simp add: normalizeServerUrl_def)
  have d: "u \<noteq> [] \<Longrightarrow> absent ''localhost'' u \<Longrightarrow>
      normalizeServerUrl ''10.0.2.2'' (Some u) = Some u"
    using replace_absent [of "''localhost''" u "''10.0.2.2''"]
    by (simp add: normalizeServerUrl_def)
  have e: "u \<noteq> [] \<Longrightarrow> h \<noteq> ''localhost'' \<Longrightarrow> h \<noteq> ''10.0.2.2'' \<Longrightarrow>
      normalizeServerUrl h (Some u) = Some u"
    by (simp add: normalizeServerUrl_def)
  have n: "normalizeServerUrl h None = None" "normalizeServerUrl h (Some '''') = None"
    by (simp_all add: normalizeServerUrl_def)
  from a b c d e n show ?thesis by blast
qed

theorem normalizeServerUrl_spec_witness:
  "first_occurrence ''10.0.2.2'' ''http://10.0.2.2:5000/10.0.2.2.mp3'' 7
   \<and> normalizeServerUrl ''localhost'' (Some ''http://10.0.2.2:5000/10.0.2.2.mp3'')
       = Some ''http://localhost:5000/10.0.2.2.mp3''
   \<and> absent ''10.0.2.2'' ''http://example.org/a.mp3''
   \<and> normalizeServerUrl ''localhost'' (Some ''http://example.org/a.mp3'')
       = Some ''http://example.org/a.mp3''
   \<and> normalizeServerUrl ''example.org'' (Some ''http://10.0.2.2:5000/a.mp3'')
       = Some ''http://10.0.2.2:5000/a.mp3''
   \<and> normalizeServerUrl ''localhost'' None = None"
proof -
  have f: "first_occurrence ''10.0.2.2'' ''http://10.0.2.2:5000/10.0.2.2.mp3'' 7"
    by (simp add: first_occurrence_def occurs_at_def less_Suc_eq numeral_nat)
  have a: "absent ''10.0.2.2'' ''http://example.org/a.mp3''"
    by (simp add: absent_def occurs_at_def le_Suc_eq numeral_nat)
  have ne: "''http://10.0.2.2:5000/10.0.2.2.mp3'' \<noteq> []" "''http://example.org/a.mp3'' \<noteq> []"
     "''http://10.0.2.2:5000/a.mp3'' \<noteq> []" "''example.org'' \<noteq> ''localhost''"
     "''example.org'' \<noteq> ''10.0.2.2''"
    by simp_all
  have "normalizeServerUrl ''localhost'' (Some ''http://10.0.2.2:5000/10.0.2.2.mp3'')
       = Some (take 7 ''http://10.0.2.2:5000/10.0.2.2.mp3'' @ ''localhost''
               @ drop (7 + length ''10.0.2.2'') ''http://10.0.2.2:5000/10.0.2.2.mp3'')"
    using normalizeServerUrl_spec [of "''localhost''" "''http://10.0.2.2:5000/10.0.2.2.mp3''" 7] f ne
    by blast
  then have 1: "normalizeServerUrl ''localhost'' (Some ''http://10.0.2.2:5000/10.0.2.2.mp3'')
       = Some ''http://localhost:5000/10.0.2.2.mp3''"
    by simp
  from normalizeServerUrl_spec [of "''localhost''" "''http://example.org/a.mp3''" 0] a ne
  have 2: "normalizeServerUrl ''localhost'' (Some ''http://example.org/a.mp3'')
       = Some ''http://example.org/a.mp3''"
    by blast
  from normalizeServerUrl_spec [of "''example.org''" "''http://10.0.2.2:5000/a.mp3''" 0] ne
  have 3: "normalizeServerUrl ''example.org'' (Some ''http://10.0.2.2:5000/a.mp3'')
       = Some ''http://10.0.2.2:5000/a.mp3''"
    by blast
  from normalizeServerUrl_spec [of "''localhost''" "[]" 0]
  have 4: "normalizeServerUrl ''localhost'' None = None"
    by blast
  from f a 1 2 3 4 show ?thesis by blast
qed

subsection \<open>Playback\<close>

lemma stopPlayback_fields:
  "isPlaying (stopPlayback w) = False"
  "playbackTime (stopPlayback w) = 0"
  "selectedRecording (stopPlayback w) = None"
  "playbackTimerRef (stopPlayback w) = None"
  "audioPlayerRef (stopPlayback w) = map_option (setCurrentTime 0 \<circ> pause) (audioPlayerRef w)"
  "recordingFormats (stopPlayback w) = recordingFormats w"
  "deviceRequests (stopPlayback w) = deviceRequests w"
  "audioUrl (stopPlayback w) = audioUrl w"
  "objectUrls (stopPlayback w) = objectUrls w"
  by (simp_all add: stopPlayback_def)

lemma halted_element:
  "paused (setCurrentTime 0 (pause el))"
  "currentTime (setCurrentTime 0 (pause el)) = 0"
  "src (setCurrentTime 0 (pause el)) = src el"
  "ops (setCurrentTime 0 (pause el)) = ops el @ [Pause, SetCurrentTime 0]"
  by (simp_all add: setCurrentTime_def pause_def)

lemma attach_element:
  "src (attach u e) = u"
  "\<not> paused (attach u e)"
  "ops (attach u e) = ops e @ [SetSrc u, SetCrossOrigin ''anonymous'', Load, Play]"
  by (simp_all add: attach_def play_def load_def setCrossOrigin_def setSrc_def)

text \<open>
  A play request made while the render is playing, and resolving an address \<open>u\<close>,
  first brings the component to the state \<open>stopPlayback w\<close>: the element is paused
  and rewound to 0, the playing flag is off, the elapsed time is 0, the selection is
  cleared and the playback timer is gone. Only then is \<open>u\<close> set as the source of the
  element, loaded and played. The element has one source attribute, and the
  operations of the request replace it only while the element is halted.
\<close>

lemma startPlayback_stops_active_source_first:
  assumes "isPlaying snap" and "audioPlayerRef w = Some el"
    and "urlToPlay pf snap = Some u" and "u \<noteq> []"
  shows "\<exists>halted. audioPlayerRef (stopPlayback w) = Some halted
           \<and> paused halted \<and> currentTime halted = 0
           \<and> ops halted = ops el @ [Pause, SetCurrentTime 0]
           \<and> \<not> isPlaying (stopPlayback w) \<and> playbackTime (stopPlayback w) = 0
           \<and> selectedRecording (stopPlayback w) = None
           \<and> playbackTimerRef (stopPlayback w) = None
           \<and> startPlayback pf snap w = (stopPlayback w)\<lparr>audioPlayerRef := Some (attach u halted)\<rparr>
           \<and> src (attach u halted) = u \<and> \<not> paused (attach u halted)
           \<and> ops (attach u halted)
               = ops el @ [Pause, SetCurrentTime 0, SetSrc u, SetCrossOrigin ''anonymous'', Load, Play]
           \<and> attach_when_halted (paused el)
                [Pause, SetCurrentTime 0, SetSrc u, SetCrossOrigin ''anonymous'', Load, Play]"
proof -
  let ?h = "setCurrentTime 0 (pause el)"
  have p: "audioPlayerRef (stopPlayback w) = Some ?h"
    using assms(2) by (simp add: stopPlayback_fields)
  have s: "startPlayback pf snap w = (stopPlayback w)\<lparr>audioPlayerRef := Some (attach u ?h)\<rparr>"
    using assms p by (simp add: startPlayback_def)
  have o: "ops (attach u ?h)
      = ops el @ [Pause, SetCurrentTime 0, SetSrc u, SetCrossOrigin ''anonymous'', Load, Play]"
    by (simp add: attach_element halted_element)
  show ?thesis
  proof (intro exI[of _ ?h] conjI)
    show "audioPlayerRef (stopPlayback w) = Some ?h" by (rule p)
    show "startPlayback pf snap w = (stopPlayback w)\<lparr>audioPlayerRef := Some (attach u ?h)\<rparr>"
      by (rule s)
    show "ops (attach u ?h)
      = ops el @ [Pause, SetCurrentTime 0, SetSrc u, SetCrossOrigin ''anonymous'', Load, Play]"
      by (rule o)
  qed (simp_all add: stopPlayback_fields halted_element attach_element)
qed

lemma startPlayback_stops_active_source_first_example:
  "isPlaying playingA
   \<and> urlToPlay pf0 playingA = Some ''http://localhost:5000/a1.mp3''
   \<and> map_option ops (audioPlayerRef (startPlayback pf0 playingA playingA))
       = Some [Pause, SetCurrentTime 0, SetSrc ''http://localhost:5000/a1.mp3'',
               SetCrossOrigin ''anonymous'', Load, Play]
   \<and> selectedRecording (startPlayback pf0 playingA playingA) = None"
proof -
  let ?el = "\<lparr>src = ''http://localhost:5000/a1.mp3'', crossOrigin = ''anonymous'',
              paused = False, currentTime = 3, ops = []\<rparr>"
  let ?u = "''http://localhost:5000/a1.mp3''"
  have h1: "isPlaying playingA" by (simp add: playingA_def)
  have h2: "audioPlayerRef playingA = Some ?el" by (simp add: playingA_def)
  have h3: "urlToPlay pf0 playingA = Some ?u"
    by (simp add: urlToPlay_def getRecordingUrl_def playingA_def loaded_def initial_def
        recA_def pf0_def normalizeServerUrl_def)
  have h4: "?u \<noteq> []" by simp
  from startPlayback_stops_active_source_first [OF h1 h2 h3 h4]
  obtain halted where
    s: "startPlayback pf0 playingA playingA
          = (stopPlayback playingA)\<lparr>audioPlayerRef := Some (attach ?u halted)\<rparr>"
    and o: "ops (attach ?u halted)
          = ops ?el @ [Pause, SetCurrentTime 0, SetSrc ?u, SetCrossOrigin ''anonymous'', Load, Play]"
    by blast
  from s o have "map_option ops (audioPlayerRef (startPlayback pf0 playingA playingA))
       = Some [Pause, SetCurrentTime 0, SetSrc ?u, SetCrossOrigin ''anonymous'', Load, Play]"
    by simp
  moreover from s have "selectedRecording (startPlayback pf0 playingA playingA) = None"
    by (simp add: stopPlayback_fields)
  ultimately show ?thesis using h1 h3 by blast
qed

text \<open>
  Which address a play request attaches is settled by the render, not by the entry
  passed to \<open>playRecording\<close>: while the render is playing, a press on the play
  button of another entry does what \<open>startPlayback\<close> does in that render.
\<close>

lemma stopPlayback_forgets_selection:
  "stopPlayback (w\<lparr>selectedRecording := s\<rparr>) = stopPlayback w"
  by (simp add: stopPlayback_def)

lemma playRecording_resolves_in_render:
  assumes "isPlaying snap" and "selectedId snap \<noteq> Some (rid r)"
    and "audioPlayerRef w \<noteq> None" and "urlToPlay pf snap = Some u" and "u \<noteq> []"
  shows "playRecording pf snap r w = startPlayback pf snap w"
  using assms by (simp add: playRecording_def startPlayback_def stopPlayback_forgets_selection)

lemma playingA_resolves:
  "urlToPlay pf0 playingA = Some ''http://localhost:5000/a1.mp3''"
  "getRecordingUrl pf0 playingA recB = Some ''http://localhost:5000/b2.mp3''"
  "urlToPlay pf0 playingAWithLocal = Some ''http://localhost:5000/a1.mp3''"
  by (simp_all add: urlToPlay_def getRecordingUrl_def playingAWithLocal_def playingA_def
      loaded_def initial_def recA_def recB_def pf0_def normalizeServerUrl_def)

lemma pressedB_eq:
  "pressedB = (stopPlayback playingA)
     \<lparr>audioPlayerRef :=
        Some (attach ''http://localhost:5000/a1.mp3''
               (setCurrentTime 0 (pause \<lparr>src = ''http://localhost:5000/a1.mp3'',
                   crossOrigin = ''anonymous'', paused = False, currentTime = 3, ops = []\<rparr>)))\<rparr>"
proof -
  have i: "selectedId playingA \<noteq> Some (rid recB)" "isPlaying playingA"
    "audioPlayerRef playingA = Some \<lparr>src = ''http://localhost:5000/a1.mp3'',
        crossOrigin = ''anonymous'', paused = False, currentTime = 3, ops = []\<rparr>"
    by (simp_all add: selectedId_def playingA_def recA_def recB_def)
  show ?thesis
    unfolding pressedB_def
    using i by (simp add: playRecording_def startPlayback_def playingA_resolves
        stopPlayback_forgets_selection stopPlayback_fields)
qed

lemma pressedB_fields:
  "map_option ops (audioPlayerRef pressedB)
     = Some [Pause, SetCurrentTime 0, SetSrc ''http://localhost:5000/a1.mp3'',
             SetCrossOrigin ''anonymous'', Load, Play]"
  "map_option src (audioPlayerRef pressedB) = Some ''http://localhost:5000/a1.mp3''"
  "map_option paused (audioPlayerRef pressedB) = Some False"
  "selectedRecording pressedB = None"
  by (simp_all add: pressedB_eq attach_element halted_element stopPlayback_fields)

text \<open>
  C1 fails in the code. While \<open>recA\<close> plays, the play button of another entry,
  \<open>recB\<close>, is pressed. \<open>playRecording\<close> calls the setter and then
  \<open>startPlayback\<close>, which reads the selection of its render, still \<open>recA\<close>. The
  playback of \<open>recA\<close> is stopped first, as the claim says, but the source that is
  then attached and started is \<open>recA\<close> again: the address of \<open>recB\<close> is never set,
  and the selection ends empty. The local play button does the same while a library
  entry plays: \<open>startPlayback\<close> resolves the selected entry, not the local address.
\<close>

theorem playRecording_other_entry_reattaches_active_source:
  "isPlaying playingA
   \<and> selectedId playingA = Some ''a1''
   \<and> rid recB = ''b2''
   \<and> getRecordingUrl pf0 playingA recB = Some ''http://localhost:5000/b2.mp3''
   \<and> map_option ops (audioPlayerRef (playRecording pf0 playingA recB playingA))
       = Some [Pause, SetCurrentTime 0, SetSrc ''http://localhost:5000/a1.mp3'',
               SetCrossOrigin ''anonymous'', Load, Play]
   \<and> map_option src (audioPlayerRef (playRecording pf0 playingA recB playingA))
       = Some ''http://localhost:5000/a1.mp3''
   \<and> selectedRecording (playRecording pf0 playingA recB playingA) = None
   \<and> map_option src (audioPlayerRef (startPlayback pf0 playingAWithLocal playingAWithLocal))
       = Some ''http://localhost:5000/a1.mp3''"
proof -
  have a: "isPlaying playingA" "selectedId playingA = Some ''a1''" "rid recB = ''b2''"
    by (simp_all add: selectedId_def playingA_def recA_def recB_def)
  have l: "isPlaying playingAWithLocal" "audioPlayerRef playingAWithLocal \<noteq> None"
    by (simp_all add: playingAWithLocal_def playingA_def)
  have s: "map_option src (audioPlayerRef (startPlayback pf0 playingAWithLocal playingAWithLocal))
       = Some ''http://localhost:5000/a1.mp3''"
    using l by (auto simp: startPlayback_def playingA_resolves stopPlayback_fields attach_element)
  from a s show ?thesis
    using pressedB_fields playingA_resolves(2) by (simp add: pressedB_def)
qed

text \<open>
  What \<open>handleFormatChange\<close> does by its guard. When the render has the entry
  selected and is playing, it stores the format and stops playback: playing flag off,
  elapsed time 0, selection cleared, timer gone, and the element, when there is one,
  paused and rewound with its source left as it was. Otherwise it changes the stored
  format of that entry and nothing else.
\<close>

lemma handleFormatChange_stops_playing_entry:
  "(selectedId snap = Some recordingId \<and> isPlaying snap \<longrightarrow>
      recordingFormats (handleFormatChange snap recordingId newFormat w) recordingId = Some newFormat
      \<and> \<not> isPlaying (handleFormatChange snap recordingId newFormat w)
      \<and> playbackTime (handleFormatChange snap recordingId newFormat w) = 0
      \<and> selectedRecording (handleFormatChange snap recordingId newFormat w) = None
      \<and> playbackTimerRef (handleFormatChange snap recordingId newFormat w) = None
      \<and> (\<forall>el. audioPlayerRef w = Some el \<longrightarrow>
            (\<exists>h. audioPlayerRef (handleFormatChange snap recordingId newFormat w) = Some h
                 \<and> paused h \<and> currentTime h = 0 \<and> src h = src el
                 \<and> ops h = ops el @ [Pause, SetCurrentTime 0])))
   \<and> (\<not> (selectedId snap = Some recordingId \<and> isPlaying snap) \<longrightarrow>
        handleFormatChange snap recordingId newFormat w
          = w\<lparr>recordingFormats := (recordingFormats w)(recordingId \<mapsto> newFormat)\<rparr>)"
proof (intro conjI impI)
  assume np: "\<not> (selectedId snap = Some recordingId \<and> isPlaying snap)"
  then show "handleFormatChange snap recordingId newFormat w
          = w\<lparr>recordingFormats := (recordingFormats w)(recordingId \<mapsto> newFormat)\<rparr>"
    by (auto simp: handleFormatChange_def Let_def)
next
  assume p: "selectedId snap = Some recordingId \<and> isPlaying snap"
  let ?w1 = "w\<lparr>recordingFormats := (recordingFormats w)(recordingId \<mapsto> newFormat)\<rparr>"
  have e: "handleFormatChange snap recordingId newFormat w = stopPlayback ?w1"
    using p by (simp add: handleFormatChange_def Let_def)
  show "recordingFormats (handleFormatChange snap recordingId newFormat w) recordingId = Some newFormat"
    by (simp add: e stopPlayback_fields)
  show "\<not> isPlaying (handleFormatChange snap recordingId newFormat w)"
    by (simp add: e stopPlayback_fields)
  show "playbackTime (handleFormatChange snap recordingId newFormat w) = 0"
    by (simp add: e stopPlayback_fields)
  show "selectedRecording (handleFormatChange snap recordingId newFormat w) = None"
    by (simp add: e stopPlayback_fields)
  show "playbackTimerRef (handleFormatChange snap recordingId newFormat w) = None"
    by (simp add: e stopPlayback_fields)
  show "\<forall>el. audioPlayerRef w = Some el \<longrightarrow>
            (\<exists>h. audioPlayerRef (handleFormatChange snap recordingId newFormat w) = Some h
                 \<and> paused h \<and> currentTime h = 0 \<and> src h = src el
                 \<and> ops h = ops el @ [Pause, SetCurrentTime 0])"
  proof (intro allI impI)
    fix el assume a: "audioPlayerRef w = Some el"
    have "audioPlayerRef (handleFormatChange snap recordingId newFormat w)
        = Some (setCurrentTime 0 (pause el))"
      using a by (simp add: e stopPlayback_fields)
    then show "\<exists>h. audioPlayerRef (handleFormatChange snap recordingId newFormat w) = Some h
                 \<and> paused h \<and> currentTime h = 0 \<and> src h = src el
                 \<and> ops h = ops el @ [Pause, SetCurrentTime 0]"
      by (simp add: halted_element)
  qed
qed

lemma handleFormatChange_stops_playing_entry_example:
  "selectedId playingA = Some ''a1'' \<and> isPlaying playingA
   \<and> recordingFormats (handleFormatChange playingA ''a1'' ''mp4'' playingA) ''a1'' = Some ''mp4''
   \<and> \<not> isPlaying (handleFormatChange playingA ''a1'' ''mp4'' playingA)
   \<and> selectedRecording (handleFormatChange playingA ''a1'' ''mp4'' playingA) = None
   \<and> map_option ops (audioPlayerRef (handleFormatChange playingA ''a1'' ''mp4'' playingA))
       = Some [Pause, SetCurrentTime 0]
   \<and> handleFormatChange playingA ''b2'' ''mp4'' playingA
       = playingA\<lparr>recordingFormats := (recordingFormats playingA)(''b2'' \<mapsto> ''mp4'')\<rparr>"
proof -
  let ?el = "\<lparr>src = ''http://localhost:5000/a1.mp3'', crossOrigin = ''anonymous'',
              paused = False, currentTime = 3, ops = []\<rparr>"
  have h1: "selectedId playingA = Some ''a1'' \<and> isPlaying playingA"
    by (simp add: selectedId_def playingA_def recA_def)
  have h2: "audioPlayerRef playingA = Some ?el" by (simp add: playingA_def)
  have h3: "\<not> (selectedId playingA = Some ''b2'' \<and> isPlaying playingA)"
    by (simp add: selectedId_def playingA_def recA_def)
  note t = handleFormatChange_stops_playing_entry [of playingA "''a1''" "''mp4''" playingA]
  from t h1 h2 obtain h where
    "audioPlayerRef (handleFormatChange playingA ''a1'' ''mp4'' playingA) = Some h"
    "ops h = ops ?el @ [Pause, SetCurrentTime 0]"
    by blast
  then have o: "map_option ops (audioPlayerRef (handleFormatChange playingA ''a1'' ''mp4'' playingA))
       = Some [Pause, SetCurrentTime 0]"
    by simp
  from handleFormatChange_stops_playing_entry [of playingA "''b2''" "''mp4''" playingA] h3
  have n: "handleFormatChange playingA ''b2'' ''mp4'' playingA
       = playingA\<lparr>recordingFormats := (recordingFormats playingA)(''b2'' \<mapsto> ''mp4'')\<rparr>"
    by blast
  from t h1 o n show ?thesis by blast
qed

lemma afterB_fields:
  "isPlaying afterB" "selectedRecording afterB = None"
  "map_option src (audioPlayerRef afterB) = Some ''http://localhost:5000/a1.mp3''"
  "map_option paused (audioPlayerRef afterB) = Some False"
  "map_option ops (audioPlayerRef afterB)
     = Some [Pause, SetCurrentTime 0, SetSrc ''http://localhost:5000/a1.mp3'',
             SetCrossOrigin ''anonymous'', Load, Play]"
  by (simp_all add: afterB_def playResolved_def pressedB_fields)

text \<open>
  C8 fails in the code. After the press on \<open>recB\<close> above and the resolved promise,
  the element plays \<open>recA\<close> while the component has no selection. Selecting another
  format for \<open>recA\<close> then misses the guard: only the stored format changes, and the
  element goes on playing, with no operation performed on it.
\<close>

theorem handleFormatChange_leaves_sounding_entry_playing:
  "isPlaying afterB
   \<and> map_option src (audioPlayerRef afterB) = Some ''http://localhost:5000/a1.mp3''
   \<and> map_option paused (audioPlayerRef afterB) = Some False
   \<and> selectedRecording afterB = None
   \<and> handleFormatChange afterB ''a1'' ''mp4'' afterB
       = afterB\<lparr>recordingFormats := (recordingFormats afterB)(''a1'' \<mapsto> ''mp4'')\<rparr>
   \<and> isPlaying (handleFormatChange afterB ''a1'' ''mp4'' afterB)
   \<and> map_option paused (audioPlayerRef (handleFormatChange afterB ''a1'' ''mp4'' afterB))
       = Some False
   \<and> map_option ops (audioPlayerRef (handleFormatChange afterB ''a1'' ''mp4'' afterB))
       = map_option ops (audioPlayerRef afterB)"
proof -
  have n: "selectedId afterB = None"
    by (simp add: selectedId_def afterB_fields)
  then have e: "handleFormatChange afterB ''a1'' ''mp4'' afterB
       = afterB\<lparr>recordingFormats := (recordingFormats afterB)(''a1'' \<mapsto> ''mp4'')\<rparr>"
    by (simp add: handleFormatChange_def Let_def)
  show ?thesis
    unfolding e by (simp add: afterB_fields)
qed

lemma selectedA_eq: "selectedA = loaded\<lparr>selectedRecording := Some recA\<rparr>"
proof -
  have u: "urlToPlay pf0 loaded = Some []"
    by (simp add: urlToPlay_def loaded_def initial_def)
  have "selectedId loaded = None"
    by (simp add: selectedId_def loaded_def initial_def)
  then show ?thesis
    unfolding selectedA_def using u by (simp add: playRecording_def startPlayback_def)
qed

lemma rejectedA_fields:
  "\<not> isPlaying rejectedA" "selectedRecording rejectedA = Some recA"
  "map_option src (audioPlayerRef rejectedA) = Some ''http://localhost:5000/a1.mp3''"
proof -
  have u: "urlToPlay pf0 selectedA = Some ''http://localhost:5000/a1.mp3''"
    by (simp add: selectedA_eq urlToPlay_def getRecordingUrl_def loaded_def initial_def
        recA_def pf0_def normalizeServerUrl_def)
  have p: "\<not> isPlaying selectedA" "audioPlayerRef selectedA \<noteq> None"
    by (simp_all add: selectedA_eq loaded_def initial_def)
  have e: "playRecording pf0 selectedA recA selectedA
      = selectedA\<lparr>selectedRecording := Some recA,
                   audioPlayerRef := map_option (attach ''http://localhost:5000/a1.mp3'')
                                       (audioPlayerRef selectedA)\<rparr>"
    using u p by (simp add: playRecording_def startPlayback_def)
  show "\<not> isPlaying rejectedA" by (simp add: rejectedA_def playRejected_def)
  show "selectedRecording rejectedA = Some recA"
    by (simp add: rejectedA_def playRejected_def e)
  show "map_option src (audioPlayerRef rejectedA) = Some ''http://localhost:5000/a1.mp3''"
    using p(2) by (auto simp: rejectedA_def playRejected_def e attach_element)
qed

text \<open>
  C9, as stated, fails. A first press on the play button of a library entry, while
  there is no local recording, selects the entry and plays nothing: the handler
  resolves the address in its render, which has no selection and an empty local
  address. A second press plays the entry; when the promise of \<open>play()\<close> is
  rejected, the playing flag stays off and the selection stays. In both states
  nothing is playing, and \<open>stopPlayback\<close> clears the selection.
\<close>

theorem stopPlayback_idle_clears_selection_counterexample:
  "\<not> isPlaying selectedA
   \<and> selectedRecording selectedA = Some recA
   \<and> selectedRecording (stopPlayback selectedA) \<noteq> selectedRecording selectedA
   \<and> \<not> isPlaying rejectedA
   \<and> selectedRecording rejectedA = Some recA
   \<and> selectedRecording (stopPlayback rejectedA) \<noteq> selectedRecording rejectedA"
proof -
  have "\<not> isPlaying selectedA" "selectedRecording selectedA = Some recA"
    by (simp_all add: selectedA_eq loaded_def initial_def)
  then show ?thesis by (simp add: rejectedA_fields stopPlayback_fields)
qed

text \<open>
  C9, amended. \<open>stopPlayback\<close> is total, so it raises nothing. Called while nothing
  plays, it leaves the playing flag off and leaves the elapsed time at 0 and the
  selection empty; the three are unchanged when no entry was selected and the elapsed
  time was 0 already.
\<close>

theorem stopPlayback_when_nothing_plays:
  assumes "\<not> isPlaying w"
  shows "\<not> isPlaying (stopPlayback w)
     \<and> playbackTime (stopPlayback w) = 0
     \<and> selectedRecording (stopPlayback w) = None
     \<and> (selectedRecording w = None \<and> playbackTime w = 0 \<longrightarrow>
          isPlaying (stopPlayback w) = isPlaying w
          \<and> playbackTime (stopPlayback w) = playbackTime w
          \<and> selectedRecording (stopPlayback w) = selectedRecording w)"
  using assms by (simp add: stopPlayback_fields)

theorem stopPlayback_when_nothing_plays_witness:
  "\<not> isPlaying loaded \<and> selectedRecording loaded = None \<and> playbackTime loaded = 0
   \<and> isPlaying (stopPlayback loaded) = isPlaying loaded
   \<and> playbackTime (stopPlayback loaded) = playbackTime loaded
   \<and> selectedRecording (stopPlayback loaded) = selectedRecording loaded"
proof -
  have h: "\<not> isPlaying loaded" "selectedRecording loaded = None" "playbackTime loaded = 0"
    by (simp_all add: loaded_def initial_def)
  from stopPlayback_when_nothing_plays [OF h(1)] h show ?thesis by blast
qed

subsection \<open>Starting a recording\<close>

lemma startRecording_loaded:
  "hasGetUserMedia pf \<Longrightarrow> hasMediaRecorder pf \<Longrightarrow> ffmpegLoaded w \<Longrightarrow>
     startRecording pf w
       = (DeviceRequested,
          (stopPlayback w)\<lparr>selectedRecording := None, error := [],
                            deviceRequests := Suc (deviceRequests w)\<rparr>)"
  by (simp add: startRecording_def checkSupport_def)

text \<open>
  C3 fails in the code. After one press of the record button the device prompt is
  open: nothing is recording or converting yet and no message is shown, so the button
  is enabled and starts a recording again. The second call is not refused and does
  not leave the state as it was: it asks for the device a second time, so two
  captures are under way. No path of \<open>startRecording\<close> reports that the pipeline is
  busy.
\<close>

theorem second_startRecording_requests_device_again:
  "pipelineState acquiring = AcquiringDevice
   \<and> fst (recordButton pf0 acquiring acquiring) = Some DeviceRequested
   \<and> fst (startRecording pf0 acquiring) = DeviceRequested
   \<and> deviceRequests acquiring = 1
   \<and> deviceRequests (snd (startRecording pf0 acquiring)) = 2
   \<and> snd (startRecording pf0 acquiring) \<noteq> acquiring"
proof -
  have s: "hasGetUserMedia pf0" "hasMediaRecorder pf0"
    by (simp_all add: pf0_def)
  have l: "ffmpegLoaded loaded" "deviceRequests loaded = 0"
    by (simp_all add: loaded_def initial_def)
  have a: "acquiring = (stopPlayback loaded)\<lparr>selectedRecording := None, error := [],
                            deviceRequests := Suc (deviceRequests loaded)\<rparr>"
    unfolding acquiring_def by (simp add: startRecording_loaded [OF s l(1)])
  have f: "ffmpegLoaded acquiring" "deviceRequests acquiring = 1" "error acquiring = []"
      "\<not> isRecording acquiring" "\<not> isConverting acquiring"
    by (simp_all add: a stopPlayback_def loaded_def initial_def)
  have p: "pipelineState acquiring = AcquiringDevice"
    by (simp add: pipelineState_def f)
  have t: "startRecording pf0 acquiring
       = (DeviceRequested,
          (stopPlayback acquiring)\<lparr>selectedRecording := None, error := [],
                            deviceRequests := Suc (deviceRequests acquiring)\<rparr>)"
    by (rule startRecording_loaded [OF s f(1)])
  have d: "deviceRequests (snd (startRecording pf0 acquiring)) = 2"
    by (simp add: t f)
  have n: "snd (startRecording pf0 acquiring) \<noteq> acquiring"
    using d f(2) by auto
  have b: "fst (recordButton pf0 acquiring acquiring) = Some DeviceRequested"
    by (simp add: recordButton_def f t)
  from p b t d n f(2) show ?thesis by simp
qed

theorem second_startRecording_requests_device_again_witness:
  "error acquiring = [] \<and> ffmpegLoaded acquiring
   \<and> fst (recordButton pf0 acquiring acquiring) = Some DeviceRequested
   \<and> deviceRequests (snd (startRecording pf0 acquiring)) = 2"
proof -
  have "error acquiring = []" "ffmpegLoaded acquiring"
    by (simp_all add: acquiring_def startRecording_def checkSupport_def stopPlayback_def
        loaded_def initial_def pf0_def)
  with second_startRecording_requests_device_again show ?thesis by blast
qed

lemma stopRecording_deviceRequests:
  "deviceRequests (stopRecording snap w) = deviceRequests w"
  by (simp add: stopRecording_def)

text \<open>
  In the other two states the record button keeps a second capture out. While the
  render is recording or converting, a press requests no device. While converting
  the button is disabled and the press changes nothing; while recording, when no
  message is shown and the converter is loaded, the press ends the recording.
\<close>

lemma recordButton_starts_no_second_capture:
  assumes "isRecording snap \<or> isConverting snap"
  shows "fst (recordButton pf snap w) = None
     \<and> deviceRequests (snd (recordButton pf snap w)) = deviceRequests w
     \<and> (isConverting snap \<longrightarrow> snd (recordButton pf snap w) = w)
     \<and> (\<not> isConverting snap \<and> error snap = [] \<and> ffmpegLoaded snap \<longrightarrow>
          snd (recordButton pf snap w) = stopRecording snap w)"
  using assms by (auto simp: recordButton_def stopRecording_deviceRequests)

lemma recordingNow_fields:
  "isRecording recordingNow" "\<not> isConverting recordingNow" "error recordingNow = []"
  "ffmpegLoaded recordingNow" "deviceRequests recordingNow = 0"
  "mediaRecorderRef recordingNow = Some \<lparr>mimeType = ''audio/webm'', active = True\<rparr>"
  "chunksRef recordingNow = []" "audioUrl recordingNow = []" "objectUrls recordingNow = []"
  by (simp_all add: recordingNow_def deviceGranted_def acquiring_def startRecording_def
      checkSupport_def stopPlayback_def loaded_def initial_def pf0_def Let_def
      getSupportedMimeType_def possibleTypes_def)

lemma recordButton_starts_no_second_capture_example:
  "isRecording recordingNow
   \<and> fst (recordButton pf0 recordingNow recordingNow) = None
   \<and> deviceRequests (snd (recordButton pf0 recordingNow recordingNow)) = 0
   \<and> snd (recordButton pf0 recordingNow recordingNow) = stopRecording recordingNow recordingNow
   \<and> snd (recordButton pf0 (recordingNow\<lparr>isConverting := True\<rparr>) recordingNow) = recordingNow"
proof -
  have h: "isRecording recordingNow \<or> isConverting recordingNow"
    by (simp add: recordingNow_fields)
  have c: "isRecording (recordingNow\<lparr>isConverting := True\<rparr>)
      \<or> isConverting (recordingNow\<lparr>isConverting := True\<rparr>)"
    by simp
  note t = recordButton_starts_no_second_capture [OF h, of pf0 recordingNow]
  note t' = recordButton_starts_no_second_capture [OF c, of pf0 recordingNow]
  from t have a1: "fst (recordButton pf0 recordingNow recordingNow) = None"
    by blast
  from t have "deviceRequests (snd (recordButton pf0 recordingNow recordingNow))
      = deviceRequests recordingNow"
    by blast
  then have a2: "deviceRequests (snd (recordButton pf0 recordingNow recordingNow)) = 0"
    by (simp only: recordingNow_fields)
  from t have a3: "snd (recordButton pf0 recordingNow recordingNow)
      = stopRecording recordingNow recordingNow"
    using recordingNow_fields(2,3,4) by blast
  have "isConverting (recordingNow\<lparr>isConverting := True\<rparr>)" by simp
  with t' have a4: "snd (recordButton pf0 (recordingNow\<lparr>isConverting := True\<rparr>) recordingNow)
      = recordingNow"
    by blast
  from a1 a2 a3 a4 recordingNow_fields(1) show ?thesis by blast
qed

text \<open>
  C4, as stated, fails. The capability check comes before the check of the
  converter: on a platform without \<open>MediaRecorder\<close> a call made before the converter
  has loaded is refused as unsupported, with that message.
\<close>

theorem startRecording_unsupported_first_counterexample:
  "\<not> ffmpegLoaded initial
   \<and> fst (startRecording pfNoRecorder initial) = NotSupported
   \<and> fst (startRecording pfNoRecorder initial) \<noteq> ConverterNotLoaded
   \<and> error (snd (startRecording pfNoRecorder initial))
       = ''MediaRecorder is not supported in your browser.''"
  by (simp add: startRecording_def checkSupport_def pfNoRecorder_def pf0_def initial_def)

lemma pipelineState_error:
  "pipelineState (w\<lparr>error := e\<rparr>) = pipelineState w"
  by (simp add: pipelineState_def)

text \<open>
  C4, amended. A call of \<open>startRecording\<close> made before the converter has loaded
  requests no device and leaves the pipeline state as it was. On a platform that
  passes the capability check the call is refused as converter-not-loaded, and its
  only effect is that message.
\<close>

theorem startRecording_before_converter_loaded:
  assumes "\<not> ffmpegLoaded w"
  shows "fst (startRecording pf w) \<noteq> DeviceRequested
     \<and> deviceRequests (snd (startRecording pf w)) = deviceRequests w
     \<and> pipelineState (snd (startRecording pf w)) = pipelineState w
     \<and> (hasGetUserMedia pf \<and> hasMediaRecorder pf \<longrightarrow>
          startRecording pf w
            = (ConverterNotLoaded,
               w\<lparr>error := ''Audio converter is not loaded yet. Please wait.''\<rparr>))"
  using assms by (simp add: startRecording_def checkSupport_def pipelineState_error)

theorem startRecording_before_converter_loaded_witness:
  "\<not> ffmpegLoaded initial \<and> hasGetUserMedia pf0 \<and> hasMediaRecorder pf0
   \<and> pipelineState initial = Idle
   \<and> startRecording pf0 initial
       = (ConverterNotLoaded,
          initial\<lparr>error := ''Audio converter is not loaded yet. Please wait.''\<rparr>)
   \<and> deviceRequests (snd (startRecording pf0 initial)) = 0
   \<and> pipelineState (snd (startRecording pf0 initial)) = Idle"
proof -
  have h: "\<not> ffmpegLoaded initial" by (simp add: initial_def)
  have s: "hasGetUserMedia pf0 \<and> hasMediaRecorder pf0" by (simp add: pf0_def)
  have i: "pipelineState initial = Idle" "deviceRequests initial = 0"
    by (simp_all add: pipelineState_def initial_def)
  note t = startRecording_before_converter_loaded [OF h, of pf0]
  from t s have e: "startRecording pf0 initial
       = (ConverterNotLoaded,
          initial\<lparr>error := ''Audio converter is not loaded yet. Please wait.''\<rparr>)"
    by blast
  from t have "deviceRequests (snd (startRecording pf0 initial)) = deviceRequests initial"
    by blast
  then have d: "deviceRequests (snd (startRecording pf0 initial)) = 0"
    by (simp only: i)
  from t have "pipelineState (snd (startRecording pf0 initial)) = pipelineState initial"
    by blast
  then have p: "pipelineState (snd (startRecording pf0 initial)) = Idle"
    by (simp only: i)
  from h s i(1) e d p show ?thesis by blast
qed

subsection \<open>Conversion\<close>

lemma onstop_success:
  assumes "mediaRecorderRef w = Some r"
    and "transcode eng aacArgs ''output.m4a''
           \<lparr>blobType = mimeType r, blobData = concat (map blobData (chunksRef w))\<rparr> = Returns d"
  shows "onstop snap eng newUrl w
     = (stopTracks w)\<lparr>audioBlob := Some \<lparr>blobType = ''audio/mp4'', blobData = d\<rparr>,
                      objectUrls := objectUrls w @ [Created newUrl],
                      audioUrl := newUrl, error := [], isConverting := False\<rparr>"
  using assms by (simp add: onstop_def Let_def createObjectURL_def stopTracks_def)

lemma onstop_failure:
  assumes "mediaRecorderRef w = Some r"
    and "transcode eng aacArgs ''output.m4a''
           \<lparr>blobType = mimeType r, blobData = concat (map blobData (chunksRef w))\<rparr> = Throws m"
  shows "onstop snap eng newUrl w
     = (stopTracks w)\<lparr>error := ''Failed to convert audio: '' @ m,
                      objectUrls := (if audioUrl snap \<noteq> [] then objectUrls w @ [Revoked (audioUrl snap)]
                                     else objectUrls w),
                      audioUrl := [], audioBlob := None, isConverting := False\<rparr>"
  using assms by (simp add: onstop_def Let_def revokeObjectURL_def stopTracks_def)

lemma onstop_opus_failure:
  assumes "mediaRecorderRef w = Some r"
    and "transcode eng opusArgs ''output.opus''
           \<lparr>blobType = mimeType r, blobData = concat (map blobData (chunksRef w))\<rparr> = Throws m"
  shows "onstop_opus snap eng newUrl w
     = (stopTracks w)\<lparr>audioBlob := Some \<lparr>blobType = mimeType r,
                                          blobData = concat (map blobData (chunksRef w))\<rparr>,
                      error := ''Failed to convert audio to OPUS: '' @ m,
                      isConverting := False\<rparr>"
  using assms by (simp add: onstop_opus_def Let_def stopTracks_def)

lemma stopTracks_fields:
  "isRecording (stopTracks w) = isRecording w"
  "deviceRequests (stopTracks w) = deviceRequests w"
  "objectUrls (stopTracks w) = objectUrls w"
  "audioUrl (stopTracks w) = audioUrl w"
  "audioBlob (stopTracks w) = audioBlob w"
  "isConverting (stopTracks w) = isConverting w"
  "error (stopTracks w) = error w"
  by (simp_all add: stopTracks_def)

lemma rerender_fields:
  "isRecording (rerender prev w) = isRecording w"
  "isConverting (rerender prev w) = isConverting w"
  "deviceRequests (rerender prev w) = deviceRequests w"
  "audioUrl (rerender prev w) = audioUrl w"
  "audioBlob (rerender prev w) = audioBlob w"
  "error (rerender prev w) = error w"
  by (simp_all add: rerender_def cleanup_def Let_def stopTracks_def revokeObjectURL_def)



lemma captured3_fields:
  "isRecording captured3" "deviceRequests captured3 = 0"
  "mediaRecorderRef captured3 = Some \<lparr>mimeType = ''audio/webm'', active = True\<rparr>"
  "chunksRef captured3 = [chunk 1, chunk 2, chunk 3]"
  "audioUrl captured3 = []" "objectUrls captured3 = []"
  by (simp_all add: captured3_def ondataavailable_def chunk_def recordingNow_fields)


text \<open>
  A failed conversion in the main variant: the \<open>catch\<close> block leaves no address and
  no blob, creates no address, and the pipeline is idle again.
\<close>

lemma onstop_failure_discards:
  assumes "mediaRecorderRef w = Some r"
    and "transcode eng aacArgs ''output.m4a''
           \<lparr>blobType = mimeType r, blobData = concat (map blobData (chunksRef w))\<rparr> = Throws m"
  shows "audioUrl (rerender prev (onstop snap eng newUrl w)) = []"
    and "audioBlob (rerender prev (onstop snap eng newUrl w)) = None"
    and "\<not> isConverting (rerender prev (onstop snap eng newUrl w))"
    and "\<forall>u. Created u \<in> set (objectUrls (rerender prev (onstop snap eng newUrl w)))
           \<longrightarrow> Created u \<in> set (objectUrls w)"
    and "\<not> isRecording w \<Longrightarrow> deviceRequests w = 0 \<Longrightarrow>
           pipelineState (rerender prev (onstop snap eng newUrl w)) = Idle"
proof -
  note e = onstop_failure [OF assms, of snap newUrl]
  have a: "audioUrl (onstop snap eng newUrl w) = []" "audioBlob (onstop snap eng newUrl w) = None"
    "\<not> isConverting (onstop snap eng newUrl w)"
    "isRecording (onstop snap eng newUrl w) = isRecording w"
    "deviceRequests (onstop snap eng newUrl w) = deviceRequests w"
    by (simp_all add: e stopTracks_fields split del: if_split)
  show "audioUrl (rerender prev (onstop snap eng newUrl w)) = []"
    by (simp only: rerender_fields a)
  show "audioBlob (rerender prev (onstop snap eng newUrl w)) = None"
    by (simp only: rerender_fields a)
  show "\<not> isConverting (rerender prev (onstop snap eng newUrl w))"
    by (simp only: rerender_fields a) simp
  show "\<forall>u. Created u \<in> set (objectUrls (rerender prev (onstop snap eng newUrl w)))
           \<longrightarrow> Created u \<in> set (objectUrls w)"
    by (simp add: e rerender_def cleanup_def Let_def revokeObjectURL_def stopTracks_def)
  show "\<not> isRecording w \<Longrightarrow> deviceRequests w = 0 \<Longrightarrow>
           pipelineState (rerender prev (onstop snap eng newUrl w)) = Idle"
    by (simp add: pipelineState_def rerender_fields a)
qed

text \<open>
  C5 fails in the Opus variant. Its \<open>catch\<close> block only sets the message. When
  \<open>exec\<close> throws while a second recording is converted, the raw capture of type
  \<open>audio/webm\<close> stays in \<open>audioBlob\<close>, the address \<open>blob:1\<close> of the previous
  recording stays on offer and is not revoked, and the pipeline reads \<open>Ready\<close>. The
  main variant, on the same input, leaves no blob and no address.
\<close>

theorem onstop_opus_failure_keeps_raw_capture:
  "transcode engExecFails opusArgs ''output.opus''
      \<lparr>blobType = ''audio/webm'', blobData = [5, 6]\<rparr> = Throws ''Aborted()''
   \<and> audioBlob (rerender opusStopped (onstop_opus opusStopped engExecFails ''blob:2'' opusStopped))
       = Some \<lparr>blobType = ''audio/webm'', blobData = [5, 6]\<rparr>
   \<and> audioUrl (rerender opusStopped (onstop_opus opusStopped engExecFails ''blob:2'' opusStopped))
       = ''blob:1''
   \<and> objectUrls (rerender opusStopped (onstop_opus opusStopped engExecFails ''blob:2'' opusStopped))
       = [Created ''blob:1'']
   \<and> pipelineState (rerender opusStopped (onstop_opus opusStopped engExecFails ''blob:2'' opusStopped))
       = Ready
   \<and> audioBlob (rerender opusStopped (onstop opusStopped engExecFails ''blob:2'' opusStopped))
       = None
   \<and> audioUrl (rerender opusStopped (onstop opusStopped engExecFails ''blob:2'' opusStopped))
       = []"
proof -
  let ?r = "\<lparr>mimeType = ''audio/webm'', active = False\<rparr>"
  have m: "mediaRecorderRef opusStopped = Some ?r"
    by (simp add: opusStopped_def)
  have c: "concat (map blobData (chunksRef opusStopped)) = [5, 6]"
    by (simp add: opusStopped_def chunk_def)
  have t0: "transcode engExecFails opusArgs ''output.opus''
      \<lparr>blobType = ''audio/webm'', blobData = [5, 6]\<rparr> = Throws ''Aborted()''"
    by (simp add: transcode_def engExecFails_def)
  have t: "transcode engExecFails opusArgs ''output.opus''
      \<lparr>blobType = mimeType ?r, blobData = concat (map blobData (chunksRef opusStopped))\<rparr>
      = Throws ''Aborted()''"
    using t0 by (simp add: c)
  have ta: "transcode engExecFails aacArgs ''output.m4a''
      \<lparr>blobType = mimeType ?r, blobData = concat (map blobData (chunksRef opusStopped))\<rparr>
      = Throws ''Aborted()''"
    by (simp add: transcode_def engExecFails_def)
  note e = onstop_opus_failure [OF m t, of opusStopped "''blob:2''"]
  have f: "audioUrl opusStopped = ''blob:1''" "objectUrls opusStopped = [Created ''blob:1'']"
    "\<not> isRecording opusStopped" "deviceRequests opusStopped = 0"
    by (simp_all add: opusStopped_def loaded_def initial_def)
  have u: "audioUrl (onstop_opus opusStopped engExecFails ''blob:2'' opusStopped) = ''blob:1''"
    by (simp add: e stopTracks_fields f)
  then have r: "rerender opusStopped (onstop_opus opusStopped engExecFails ''blob:2'' opusStopped)
      = onstop_opus opusStopped engExecFails ''blob:2'' opusStopped"
    by (simp add: rerender_def f)
  have b: "audioBlob (onstop_opus opusStopped engExecFails ''blob:2'' opusStopped)
       = Some \<lparr>blobType = ''audio/webm'', blobData = [5, 6]\<rparr>"
    by (simp add: e c)
  have o: "objectUrls (onstop_opus opusStopped engExecFails ''blob:2'' opusStopped)
       = [Created ''blob:1'']"
    by (simp add: e stopTracks_fields f)
  have p: "pipelineState (onstop_opus opusStopped engExecFails ''blob:2'' opusStopped) = Ready"
    by (simp add: e stopTracks_fields f pipelineState_def)
  note d = onstop_failure_discards(1,2) [OF m ta, of opusStopped opusStopped "''blob:2''"]
  from t0 u b o p d show ?thesis by (simp add: r)
qed

subsection \<open>Release of the previous local address\<close>

lemma rerender_success:
  assumes "mediaRecorderRef w = Some r"
    and "transcode eng aacArgs ''output.m4a''
           \<lparr>blobType = mimeType r, blobData = concat (map blobData (chunksRef w))\<rparr> = Returns d"
    and "audioUrl prev \<noteq> newUrl"
  shows "objectUrls (rerender prev (onstop cl eng newUrl w))
     = objectUrls w @ [Created newUrl]
         @ (if audioUrl prev \<noteq> [] then [Revoked (audioUrl prev)] else [])"
  using assms(3)
  by (auto simp: onstop_success [OF assms(1,2)] rerender_def cleanup_def Let_def
      revokeObjectURL_def stopTracks_def)

text \<open>
  The address on offer is live in the component as mounted, and stays live through
  every handler that writes the address or the event list.
\<close>

lemma address_live_initial: "address_live initial"
  by (simp add: address_live_def initial_def)

lemma address_live_onstop:
  assumes "address_live w" and "fresh newUrl w"
  shows "address_live (onstop snap eng newUrl w)"
proof (cases "mediaRecorderRef w")
  case None
  then show ?thesis using assms(1) by (simp add: onstop_def)
next
  case (Some r)
  show ?thesis
  proof (cases "transcode eng aacArgs ''output.m4a''
           \<lparr>blobType = mimeType r, blobData = concat (map blobData (chunksRef w))\<rparr>")
    case (Throws m)
    show ?thesis
      by (simp add: onstop_failure [OF Some Throws] address_live_def)
  next
    case (Returns d)
    show ?thesis
      using assms(2)
      by (simp add: onstop_success [OF Some Returns] address_live_def fresh_def stopTracks_fields)
  qed
qed

lemma address_live_uploadSucceeded:
  assumes "address_live w"
  shows "address_live (uploadSucceeded snap w)"
  using assms by (simp add: uploadSucceeded_def Let_def address_live_def revokeObjectURL_def)

lemma address_live_rerender:
  assumes "address_live w"
  shows "address_live (rerender prev w)"
  using assms
  by (auto simp: rerender_def cleanup_def Let_def address_live_def revokeObjectURL_def
      stopTracks_def)

text \<open>
  The other handlers write neither the address nor the event list. So the address on
  offer stays live, and an address that has been revoked is never on offer again.
\<close>

lemma other_handlers_keep_address:
  "audioUrl (stopPlayback w) = audioUrl w \<and> objectUrls (stopPlayback w) = objectUrls w"
  "audioUrl (startPlayback pf snap w) = audioUrl w
     \<and> objectUrls (startPlayback pf snap w) = objectUrls w"
  "audioUrl (playRecording pf snap r w) = audioUrl w
     \<and> objectUrls (playRecording pf snap r w) = objectUrls w"
  "audioUrl (handleFormatChange snap i f w) = audioUrl w
     \<and> objectUrls (handleFormatChange snap i f w) = objectUrls w"
  "audioUrl (snd (startRecording pf w)) = audioUrl w
     \<and> objectUrls (snd (startRecording pf w)) = objectUrls w"
  "audioUrl (deviceGranted pf w) = audioUrl w \<and> objectUrls (deviceGranted pf w) = objectUrls w"
  "audioUrl (ondataavailable c w) = audioUrl w \<and> objectUrls (ondataavailable c w) = objectUrls w"
  "audioUrl (stopRecording snap w) = audioUrl w \<and> objectUrls (stopRecording snap w) = objectUrls w"
proof -
  show a: "audioUrl (stopPlayback w) = audioUrl w \<and> objectUrls (stopPlayback w) = objectUrls w"
    for w by (simp add: stopPlayback_def)
  show b: "audioUrl (startPlayback pf snap w) = audioUrl w
     \<and> objectUrls (startPlayback pf snap w) = objectUrls w" for w
    by (simp add: startPlayback_def Let_def a split: option.splits)
  show "audioUrl (playRecording pf snap r w) = audioUrl w
     \<and> objectUrls (playRecording pf snap r w) = objectUrls w"
    by (simp add: playRecording_def a b)
  show "audioUrl (handleFormatChange snap i f w) = audioUrl w
     \<and> objectUrls (handleFormatChange snap i f w) = objectUrls w"
    by (simp add: handleFormatChange_def Let_def a)
  show "audioUrl (snd (startRecording pf w)) = audioUrl w
     \<and> objectUrls (snd (startRecording pf w)) = objectUrls w"
    by (simp add: startRecording_def checkSupport_def a)
  show "audioUrl (deviceGranted pf w) = audioUrl w \<and> objectUrls (deviceGranted pf w) = objectUrls w"
    by (simp add: deviceGranted_def Let_def)
  show "audioUrl (ondataavailable c w) = audioUrl w \<and> objectUrls (ondataavailable c w) = objectUrls w"
    by (simp add: ondataavailable_def)
  show "audioUrl (stopRecording snap w) = audioUrl w \<and> objectUrls (stopRecording snap w) = objectUrls w"
    by (simp add: stopRecording_def)
qed

lemma revoked_address_not_on_offer:
  assumes "address_live w" and "Revoked u \<in> set (objectUrls w)" and "u \<noteq> []"
  shows "audioUrl w \<noteq> u"
  using assms by (auto simp: address_live_def)

lemma ready1_fields:
  "audioUrl ready1 = ''blob:1''" "objectUrls ready1 = [Created ''blob:1'']"
  "ffmpegLoaded ready1" "audioBlob ready1 = Some \<lparr>blobType = ''audio/mp4'', blobData = [7, 7]\<rparr>"
  "chunksRef ready1 = [chunk 1, chunk 2, chunk 3, chunk 4]"
  "\<not> isRecording ready1" "\<not> isConverting ready1" "deviceRequests ready1 = 0"
proof -
  let ?s = "ondataavailable (chunk 4) (stopRecording captured3 captured3)"
  have m: "mediaRecorderRef ?s = Some \<lparr>mimeType = ''audio/webm'', active = False\<rparr>"
    by (simp add: ondataavailable_def stopRecording_def captured3_fields chunk_def)
  have c: "chunksRef ?s = [chunk 1, chunk 2, chunk 3, chunk 4]"
    by (simp add: ondataavailable_def stopRecording_def captured3_fields chunk_def)
  have t: "transcode engOk aacArgs ''output.m4a''
      \<lparr>blobType = mimeType \<lparr>mimeType = ''audio/webm'', active = False\<rparr>,
       blobData = concat (map blobData (chunksRef ?s))\<rparr> = Returns [7, 7]"
    by (simp add: transcode_def engOk_def)
  have o: "objectUrls ?s = []" "ffmpegLoaded ?s" "\<not> isRecording ?s" "deviceRequests ?s = 0"
    by (simp_all add: ondataavailable_def stopRecording_def captured3_fields chunk_def
        captured3_def recordingNow_fields)
  note e = onstop_success [OF m t, of loaded "''blob:1''"]
  have p: "audioUrl captured3 \<noteq> ''blob:1''" by (simp add: captured3_fields)
  show "audioUrl ready1 = ''blob:1''"
    unfolding ready1_def by (simp add: rerender_fields e)
  show "objectUrls ready1 = [Created ''blob:1'']"
    unfolding ready1_def using rerender_success [OF m t p, of loaded]
    by (simp add: o captured3_fields)
  show "ffmpegLoaded ready1"
    unfolding ready1_def
    by (simp add: e o rerender_def cleanup_def Let_def revokeObjectURL_def stopTracks_def)
  show "audioBlob ready1 = Some \<lparr>blobType = ''audio/mp4'', blobData = [7, 7]\<rparr>"
    unfolding ready1_def by (simp add: rerender_fields e)
  show "chunksRef ready1 = [chunk 1, chunk 2, chunk 3, chunk 4]"
    unfolding ready1_def
    by (simp add: e c rerender_def cleanup_def Let_def revokeObjectURL_def stopTracks_def)
  show "\<not> isRecording ready1"
    unfolding ready1_def by (simp add: rerender_fields e stopTracks_fields o)
  show "\<not> isConverting ready1"
    unfolding ready1_def by (simp add: rerender_fields e)
  show "deviceRequests ready1 = 0"
    unfolding ready1_def by (simp add: rerender_fields e stopTracks_fields o)
qed

lemma secondStopped_fields:
  "audioUrl secondStopped = ''blob:1''" "objectUrls secondStopped = [Created ''blob:1'']"
  "mediaRecorderRef secondStopped = Some \<lparr>mimeType = ''audio/webm'', active = False\<rparr>"
  "chunksRef secondStopped = [chunk 5]"
  by (simp_all add: secondStopped_def Let_def stopRecording_def ondataavailable_def
      deviceGranted_def startRecording_def checkSupport_def stopPlayback_def pf0_def
      ready1_fields chunk_def getSupportedMimeType_def possibleTypes_def)

text \<open>
  C2, as stated, fails. The handler creates the new address first; the previous one
  is revoked by the effect cleanup of the render that commits the new address. In
  the event list the release of \<open>blob:1\<close> does not come before the creation of
  \<open>blob:2\<close>.
\<close>

theorem previous_address_released_after_creation_counterexample:
  "pipelineState ready1 = Ready
   \<and> audioUrl secondStopped = ''blob:1''
   \<and> objectUrls (rerender secondStopped (onstop ready1 engOk ''blob:2'' secondStopped))
       = [Created ''blob:1'', Created ''blob:2'', Revoked ''blob:1'']
   \<and> \<not> precedes (Revoked ''blob:1'') (Created ''blob:2'')
          (objectUrls (rerender secondStopped (onstop ready1 engOk ''blob:2'' secondStopped)))"
proof -
  have t: "transcode engOk aacArgs ''output.m4a''
      \<lparr>blobType = mimeType \<lparr>mimeType = ''audio/webm'', active = False\<rparr>,
       blobData = concat (map blobData (chunksRef secondStopped))\<rparr> = Returns [7, 7]"
    by (simp add: transcode_def engOk_def)
  have p: "audioUrl secondStopped \<noteq> ''blob:2''" by (simp add: secondStopped_fields)
  have o: "objectUrls (rerender secondStopped (onstop ready1 engOk ''blob:2'' secondStopped))
       = [Created ''blob:1'', Created ''blob:2'', Revoked ''blob:1'']"
    using rerender_success [OF secondStopped_fields(3) t p, of ready1]
    by (simp add: secondStopped_fields)
  have r: "pipelineState ready1 = Ready"
    by (simp add: pipelineState_def ready1_fields)
  show ?thesis
    unfolding o by (simp add: precedes_def secondStopped_fields r)
qed

text \<open>
  C2, amended. After a successful conversion, and the render that follows, the
  address that was on offer before has been released exactly once, after the new
  address was created; the new address differs from it and is the one on offer, and
  it is live.
\<close>

theorem successful_transcode_releases_previous_address_afterwards:
  assumes "mediaRecorderRef w = Some r"
    and "transcode eng aacArgs ''output.m4a''
           \<lparr>blobType = mimeType r, blobData = concat (map blobData (chunksRef w))\<rparr> = Returns d"
    and "audioUrl w = old" and "old \<noteq> []" and "audioUrl prev = old"
    and "address_live w" and "fresh newUrl w"
  shows "objectUrls (rerender prev (onstop cl eng newUrl w))
         = objectUrls w @ [Created newUrl, Revoked old]
     \<and> count_list (objectUrls (rerender prev (onstop cl eng newUrl w))) (Revoked old) = 1
     \<and> audioUrl (rerender prev (onstop cl eng newUrl w)) = newUrl
     \<and> newUrl \<noteq> old
     \<and> address_live (rerender prev (onstop cl eng newUrl w))"
proof -
  from assms(3,4,6) have l: "Created old \<in> set (objectUrls w)" "Revoked old \<notin> set (objectUrls w)"
    by (auto simp: address_live_def)
  from assms(7) have f: "newUrl \<noteq> []" "Created newUrl \<notin> set (objectUrls w)"
      "Revoked newUrl \<notin> set (objectUrls w)"
    by (auto simp: fresh_def)
  from l(1) f(2) have n: "newUrl \<noteq> old" by auto
  then have p: "audioUrl prev \<noteq> newUrl" using assms(5) by simp
  have o: "objectUrls (rerender prev (onstop cl eng newUrl w))
         = objectUrls w @ [Created newUrl, Revoked old]"
    using rerender_success [OF assms(1,2) p, of cl] assms(4,5) by simp
  have c: "count_list (objectUrls w @ [Created newUrl, Revoked old]) (Revoked old) = 1"
    using l(2) by (simp add: count_list_0_iff)
  have u: "audioUrl (rerender prev (onstop cl eng newUrl w)) = newUrl"
    by (simp add: rerender_fields onstop_success [OF assms(1,2)])
  have a: "address_live (rerender prev (onstop cl eng newUrl w))"
    unfolding address_live_def u o using f n by simp
  from o c u n a show ?thesis by simp
qed

theorem successful_transcode_releases_previous_address_afterwards_witness:
  "address_live secondStopped \<and> fresh ''blob:2'' secondStopped
   \<and> objectUrls (rerender secondStopped (onstop ready1 engOk ''blob:2'' secondStopped))
       = objectUrls secondStopped @ [Created ''blob:2'', Revoked ''blob:1'']
   \<and> count_list (objectUrls (rerender secondStopped (onstop ready1 engOk ''blob:2'' secondStopped)))
        (Revoked ''blob:1'') = 1
   \<and> audioUrl (rerender secondStopped (onstop ready1 engOk ''blob:2'' secondStopped)) = ''blob:2''"
proof -
  have t: "transcode engOk aacArgs ''output.m4a''
      \<lparr>blobType = mimeType \<lparr>mimeType = ''audio/webm'', active = False\<rparr>,
       blobData = concat (map blobData (chunksRef secondStopped))\<rparr> = Returns [7, 7]"
    by (simp add: transcode_def engOk_def)
  have a: "address_live secondStopped"
    by (simp add: address_live_def secondStopped_fields)
  have f: "fresh ''blob:2'' secondStopped"
    by (simp add: fresh_def secondStopped_fields)
  have n: "''blob:1'' \<noteq> []" by simp
  from successful_transcode_releases_previous_address_afterwards
         [OF secondStopped_fields(3) t secondStopped_fields(1) n secondStopped_fields(1) a f,
          of ready1]
    a f
  show ?thesis by blast
qed

end
